theory Spec2Isabelle
  imports Complex_Main
begin

section \<open>Data model of the client\<close>

text \<open>
  The client is a React front end written in TypeScript. The interfaces of
  \<^verbatim>\<open>VideoPlayer.tsx\<close> become records. A JavaScript \<^verbatim>\<open>number\<close> that carries a
  measurement (a playback time, a confidence) is a \<^typ>\<open>real\<close>: the rounding of
  IEEE doubles and the sign of zero are not modelled. A number that is an array
  index or a segment counter is an \<^typ>\<open>int\<close>.
\<close>

record Prediction =
  action_id :: int
  action_name :: string
  confidence :: real

text \<open>
  \<^verbatim>\<open>PredictionResult\<close> is declared three times (page, \<^verbatim>\<open>VideoPlayer\<close>,
  \<^verbatim>\<open>PredictionDisplay\<close>) with the same two leading members and different trailing
  ones (\<^verbatim>\<open>timestamp?\<close>, \<^verbatim>\<open>segment?\<close>, \<^verbatim>\<open>all_predictions\<close>, \<^verbatim>\<open>model_info\<close>).
  No component reads a trailing member, so the record keeps the shared two.
\<close>

record PredictionResult =
  top_prediction :: Prediction
  top5_predictions :: "Prediction list"

record ContinuousPredictions =
  video_duration :: real
  num_predictions :: int
  predictions :: "PredictionResult list"

text \<open>
  The \<^verbatim>\<open>prediction\<close> prop of \<^verbatim>\<open>VideoPlayer\<close> has the union type
  \<^verbatim>\<open>ContinuousPredictions | PredictionResult\<close>; the component tells the two apart
  with \<^verbatim>\<open>"predictions" in prediction\<close>.
\<close>

datatype prediction_prop = Continuous ContinuousPredictions | Single PredictionResult

text \<open>
  Reading a property of \<^verbatim>\<open>undefined\<close> throws a \<^verbatim>\<open>TypeError\<close>. An event
  handler that throws has still queued the state updates it made before the throw,
  so the error carries the state reached.
\<close>

datatype js_error = TypeError

text \<open>
  \<^verbatim>\<open>xs[i]\<close> on a JavaScript array, for an integer-valued \<^verbatim>\<open>i\<close>: the element,
  or \<^verbatim>\<open>undefined\<close> (here \<^const>\<open>None\<close>) out of range, negative indices included.
\<close>

definition js_index :: "'a list \<Rightarrow> int \<Rightarrow> 'a option" where
  "js_index xs i = (if 0 \<le> i \<and> i < int (length xs) then Some (xs ! nat i) else None)"

section \<open>VideoPlayer: state and handlers\<close>

record VideoPlayer_state =
  isPlaying :: bool
  videoUrl :: string
  currentTime :: real
  duration :: real
  displayedPrediction :: Prediction
  currentSegment :: int

text \<open>
  \<^verbatim>\<open>const predictions = isContinuous ? prediction.predictions : [prediction]\<close>
\<close>

fun predictions_of :: "prediction_prop \<Rightarrow> PredictionResult list" where
  "predictions_of (Continuous c) = predictions c"
| "predictions_of (Single r) = [r]"

text \<open>
  The first render: every \<^verbatim>\<open>useState\<close> takes its initial value. The initial
  value of \<^verbatim>\<open>displayedPrediction\<close> is \<^verbatim>\<open>predictions[0].top_prediction\<close>, read
  with no guard: on an empty array \<^verbatim>\<open>predictions[0]\<close> is \<^verbatim>\<open>undefined\<close> and the
  render throws.
\<close>

definition VideoPlayer_init :: "prediction_prop \<Rightarrow> js_error + VideoPlayer_state" where
  "VideoPlayer_init prediction =
     (case js_index (predictions_of prediction) 0 of
        None \<Rightarrow> Inl TypeError
      | Some r \<Rightarrow>
          Inr \<lparr>isPlaying = False, videoUrl = [], currentTime = 0, duration = 0,
               displayedPrediction = top_prediction r, currentSegment = 0\<rparr>)"

text \<open>\<^verbatim>\<open>const segmentIndex = Math.floor(time / 10)\<close>\<close>

definition segmentIndex :: "real \<Rightarrow> int" where
  "segmentIndex time = \<lfloor>time / 10\<rfloor>"

text \<open>
  \<^verbatim>\<open>handleTimeUpdate\<close>. The first argument is the \<^verbatim>\<open>predictions\<close> array of the
  render, the second is \<^verbatim>\<open>videoRef.current\<close>: \<^const>\<open>None\<close> for a null ref,
  otherwise the element's \<^verbatim>\<open>currentTime\<close>. The read
  \<^verbatim>\<open>predictions[segmentIndex].top_prediction\<close> throws when the element is
  \<^verbatim>\<open>undefined\<close>, which the guard allows for a negative index only.
\<close>

definition handleTimeUpdate ::
  "PredictionResult list \<Rightarrow> real option \<Rightarrow> VideoPlayer_state
     \<Rightarrow> (js_error \<times> VideoPlayer_state) + VideoPlayer_state" where
  "handleTimeUpdate preds videoRef_current s =
     (case videoRef_current of
        None \<Rightarrow> Inr s
      | Some time \<Rightarrow>
          (let s1 = s\<lparr>currentTime := time\<rparr>;
               idx = segmentIndex time
           in if idx < int (length preds) \<and> idx \<noteq> currentSegment s
              then (case js_index preds idx of
                      None \<Rightarrow> Inl (TypeError, s1)
                    | Some r \<Rightarrow>
                        Inr (s1\<lparr>displayedPrediction := top_prediction r,
                                 currentSegment := idx\<rparr>))
              else Inr s1))"

text \<open>\<^verbatim>\<open>handleLoadedMetadata\<close>: the second argument is the element's duration.\<close>

definition handleLoadedMetadata :: "real option \<Rightarrow> VideoPlayer_state \<Rightarrow> VideoPlayer_state" where
  "handleLoadedMetadata videoRef_current s =
     (case videoRef_current of None \<Rightarrow> s | Some d \<Rightarrow> s\<lparr>duration := d\<rparr>)"

text \<open>
  \<^verbatim>\<open>handlePlayPause\<close> toggles \<^verbatim>\<open>isPlaying\<close> when the ref is set; the element's
  \<^verbatim>\<open>onPlay\<close> and \<^verbatim>\<open>onPause\<close> set it.
\<close>

definition handlePlayPause :: "bool \<Rightarrow> VideoPlayer_state \<Rightarrow> VideoPlayer_state" where
  "handlePlayPause has_ref s = (if has_ref then s\<lparr>isPlaying := \<not> isPlaying s\<rparr> else s)"

datatype VideoPlayer_event =
    TimeUpdate "real option"
  | LoadedMetadata "real option"
  | PlayPause bool
  | OnPlay
  | OnPause

fun VideoPlayer_handle ::
  "PredictionResult list \<Rightarrow> VideoPlayer_event \<Rightarrow> VideoPlayer_state
     \<Rightarrow> (js_error \<times> VideoPlayer_state) + VideoPlayer_state" where
  "VideoPlayer_handle ps (TimeUpdate v) s = handleTimeUpdate ps v s"
| "VideoPlayer_handle ps (LoadedMetadata v) s = Inr (handleLoadedMetadata v s)"
| "VideoPlayer_handle ps (PlayPause b) s = Inr (handlePlayPause b s)"
| "VideoPlayer_handle ps OnPlay s = Inr (s\<lparr>isPlaying := True\<rparr>)"
| "VideoPlayer_handle ps OnPause s = Inr (s\<lparr>isPlaying := False\<rparr>)"

text \<open>
  A session of the mounted component: the events of the video element in order,
  each with the \<^verbatim>\<open>predictions\<close> array of the render whose handler runs. The
  page renders the component again with a new \<^verbatim>\<open>prediction\<close> prop after every
  later answer, and \<^verbatim>\<open>useState\<close> keeps the state across renders. A handler
  that throws leaves the updates it had queued.
\<close>

fun VideoPlayer_run ::
  "(PredictionResult list \<times> VideoPlayer_event) list \<Rightarrow> VideoPlayer_state \<Rightarrow> VideoPlayer_state" where
  "VideoPlayer_run [] s = s"
| "VideoPlayer_run (pe # es) s =
     (case VideoPlayer_handle (fst pe) (snd pe) s of
        Inl (err, s') \<Rightarrow> VideoPlayer_run es s'
      | Inr s' \<Rightarrow> VideoPlayer_run es s')"

section \<open>JavaScript numbers and number formatting\<close>

text \<open>
  The result of a division can leave the finite numbers: \<^verbatim>\<open>x / 0\<close> is an infinity
  or \<^verbatim>\<open>NaN\<close>, and \<^verbatim>\<open>Math.max()\<close> of no argument is \<^verbatim>\<open>-Infinity\<close>. Computed
  numbers are therefore values of \<open>jsnum\<close>; numbers parsed from the JSON of a
  response are finite.
\<close>

datatype jsnum = Fin real | PosInf | NegInf | NaN

fun js_div :: "jsnum \<Rightarrow> jsnum \<Rightarrow> jsnum" where
  "js_div NaN y = NaN"
| "js_div x NaN = NaN"
| "js_div (Fin a) (Fin b) =
     (if b = 0 then (if a = 0 then NaN else if 0 < a then PosInf else NegInf)
      else Fin (a / b))"
| "js_div (Fin a) PosInf = Fin 0"
| "js_div (Fin a) NegInf = Fin 0"
| "js_div PosInf (Fin b) = (if b < 0 then NegInf else PosInf)"
| "js_div NegInf (Fin b) = (if b < 0 then PosInf else NegInf)"
| "js_div PosInf PosInf = NaN"
| "js_div PosInf NegInf = NaN"
| "js_div NegInf PosInf = NaN"
| "js_div NegInf NegInf = NaN"

fun js_times :: "jsnum \<Rightarrow> jsnum \<Rightarrow> jsnum" where
  "js_times NaN y = NaN"
| "js_times x NaN = NaN"
| "js_times (Fin a) (Fin b) = Fin (a * b)"
| "js_times (Fin a) PosInf = (if a = 0 then NaN else if 0 < a then PosInf else NegInf)"
| "js_times (Fin a) NegInf = (if a = 0 then NaN else if 0 < a then NegInf else PosInf)"
| "js_times PosInf (Fin b) = (if b = 0 then NaN else if 0 < b then PosInf else NegInf)"
| "js_times NegInf (Fin b) = (if b = 0 then NaN else if 0 < b then NegInf else PosInf)"
| "js_times PosInf PosInf = PosInf"
| "js_times PosInf NegInf = NegInf"
| "js_times NegInf PosInf = NegInf"
| "js_times NegInf NegInf = PosInf"

text \<open>\<^verbatim>\<open>Math.max(...xs)\<close> for finite arguments.\<close>

fun Math_max :: "real list \<Rightarrow> jsnum" where
  "Math_max [] = NegInf"
| "Math_max (x # xs) = (case Math_max xs of Fin m \<Rightarrow> Fin (max x m) | _ \<Rightarrow> Fin x)"

definition digit_char :: "nat \<Rightarrow> char" where
  "digit_char d = ''0123456789'' ! d"

fun digits10 :: "nat \<Rightarrow> string" where
  "digits10 n = (if n < 10 then [digit_char n] else digits10 (n div 10) @ [digit_char (n mod 10)])"

declare digits10.simps [simp del]

text \<open>
  \<^verbatim>\<open>Number.prototype.toFixed(f)\<close> as ECMAScript defines it, on a finite number and
  for \<open>0 \<le> f \<le> 100\<close>: the sign, then the integer \<open>n\<close> nearest to \<open>x * 10^f\<close>
  (the larger of two nearest) written in decimal, padded with zeros to \<open>f + 1\<close>
  digits, with a point before the last \<open>f\<close>. From \<open>10^21\<close> on the result is
  \<^verbatim>\<open>String(x)\<close>, the exponent notation of the engine, which is the parameter
  \<open>Number_toString\<close> here.
\<close>

definition toFixed :: "(real \<Rightarrow> string) \<Rightarrow> nat \<Rightarrow> real \<Rightarrow> string" where
  "toFixed Number_toString f x =
     (let s = (if x < 0 then ''-'' else []);
          y = \<bar>x\<bar>
      in if 10 ^ 21 \<le> y then s @ Number_toString y
         else
           (let n = nat \<lfloor>y * 10 ^ f + 1 / 2\<rfloor>;
                m = digits10 n
            in if f = 0 then s @ m
               else
                 (let z = replicate (f + 1 - length m) (CHR ''0'') @ m;
                      k = length z
                  in s @ take (k - f) z @ ''.'' @ drop (k - f) z)))"

section \<open>What the two display components render\<close>

text \<open>
  One row of a ``Top 5 Predictions'' list: the rank shown (\<^verbatim>\<open>index + 1\<close>), the
  action name, the confidence text and the number put before \<^verbatim>\<open>%\<close> in the
  width of the bar.
\<close>

record top5_row =
  row_rank :: nat
  row_name :: string
  row_confidence :: string
  row_width :: jsnum

text \<open>
  \<^verbatim>\<open>VideoPlayer\<close>: \<^verbatim>\<open>Confidence: {displayedPrediction.confidence.toFixed(2)}\<close>
\<close>

definition VideoPlayer_confidence :: "(real \<Rightarrow> string) \<Rightarrow> VideoPlayer_state \<Rightarrow> string" where
  "VideoPlayer_confidence ts s = toFixed ts 2 (confidence (displayedPrediction s))"

text \<open>
  \<^verbatim>\<open>VideoPlayer\<close>: the row of entry \<open>p\<close> at \<open>index\<close>, where \<open>p0\<close> is
  \<^verbatim>\<open>predictions[currentSegment].top5_predictions[0]\<close>.
\<close>

definition VideoPlayer_row :: "(real \<Rightarrow> string) \<Rightarrow> Prediction \<Rightarrow> nat \<times> Prediction \<Rightarrow> top5_row" where
  "VideoPlayer_row ts p0 ip =
     \<lparr>row_rank = fst ip + 1,
      row_name = action_name (snd ip),
      row_confidence = toFixed ts 2 (confidence (snd ip)),
      row_width = js_times (js_div (Fin (confidence (snd ip))) (Fin (confidence p0))) (Fin 100)\<rparr>"

text \<open>
  \<^verbatim>\<open>predictions[currentSegment]?.top5_predictions.slice(0, 5).map(...)\<close>: nothing
  is rendered when the segment is \<^verbatim>\<open>undefined\<close>. The callback reads element 0 of
  the unsliced list, which exists whenever the callback runs.
\<close>

definition VideoPlayer_top5 ::
  "(real \<Rightarrow> string) \<Rightarrow> PredictionResult list \<Rightarrow> VideoPlayer_state \<Rightarrow> top5_row list" where
  "VideoPlayer_top5 ts preds s =
     (case js_index preds (currentSegment s) of
        None \<Rightarrow> []
      | Some r \<Rightarrow>
          (case top5_predictions r of
             [] \<Rightarrow> []
           | p0 # rest \<Rightarrow>
               map (VideoPlayer_row ts p0) (enumerate 0 (take 5 (top5_predictions r)))))"

text \<open>
  \<^verbatim>\<open>PredictionDisplay\<close>:
  \<^verbatim>\<open>const maxConfidence = Math.max(...top5_predictions.map((p) => p.confidence))\<close>
\<close>

definition maxConfidence :: "PredictionResult \<Rightarrow> jsnum" where
  "maxConfidence prediction = Math_max (map confidence (top5_predictions prediction))"

definition PredictionDisplay_confidence :: "(real \<Rightarrow> string) \<Rightarrow> PredictionResult \<Rightarrow> string" where
  "PredictionDisplay_confidence ts prediction =
     toFixed ts 2 (confidence (top_prediction prediction))"

definition PredictionDisplay_row :: "(real \<Rightarrow> string) \<Rightarrow> jsnum \<Rightarrow> nat \<times> Prediction \<Rightarrow> top5_row" where
  "PredictionDisplay_row ts mx ip =
     \<lparr>row_rank = fst ip + 1,
      row_name = action_name (snd ip),
      row_confidence = toFixed ts 2 (confidence (snd ip)),
      row_width = js_times (js_div (Fin (confidence (snd ip))) mx) (Fin 100)\<rparr>"

text \<open>\<^verbatim>\<open>top5_predictions.map(...)\<close>, with no slice.\<close>

definition PredictionDisplay_top5 :: "(real \<Rightarrow> string) \<Rightarrow> PredictionResult \<Rightarrow> top5_row list" where
  "PredictionDisplay_top5 ts prediction =
     map (PredictionDisplay_row ts (maxConfidence prediction))
       (enumerate 0 (top5_predictions prediction))"

section \<open>VideoUpload: strings, requests and responses\<close>

text \<open>
  A \<^verbatim>\<open>File\<close> is its name and its bytes. File names are strings of ASCII
  characters; \<^verbatim>\<open>toLowerCase\<close> is modelled on them.
\<close>

record File =
  name :: string
  bytes :: "nat list"








text \<open>
  A call of \<^verbatim>\<open>fetch\<close>: the URL built by the template literal, the method and the
  file appended to the form data.
\<close>

record Request =
  url :: string
  http_method :: string
  form_file :: File

definition fetch_request :: "File \<Rightarrow> string \<Rightarrow> Request" where
  "fetch_request file modelType =
     \<lparr>url = ''http://localhost:8001/predict-continuous?model_type='' @ modelType,
      http_method = ''POST'',
      form_file = file\<rparr>"

text \<open>
  What the network answers to one request. \<open>FetchRejects\<close>: \<^verbatim>\<open>fetch\<close> throws
  (a network error) with the message given. Otherwise a response arrives, with
  \<^verbatim>\<open>response.ok\<close> false or true, and the handler awaits \<^verbatim>\<open>response.json()\<close>.

  On a response that is not ok the handler reads \<^verbatim>\<open>error.detail\<close> of the parsed
  body. \<open>ErrorBodyThrows\<close>: \<^verbatim>\<open>response.json()\<close> rejects, or the body is
  \<^verbatim>\<open>null\<close> and the read throws; the string is the message of the error thrown.
  \<open>ErrorBody DetailFalsy\<close>: \<^verbatim>\<open>detail\<close> is missing or falsy.
  \<open>ErrorBody (DetailTruthy t)\<close>: \<^verbatim>\<open>detail\<close> is truthy and \<open>t\<close> is its
  conversion to a string, which \<^verbatim>\<open>new Error(detail)\<close> takes as message (empty
  for an empty array).

  On an ok response \<open>OkBodyRejects\<close> is a body that is not JSON, and
  \<open>OkBody\<close> the parsed result.
\<close>

datatype error_detail = DetailFalsy | DetailTruthy string

datatype error_body = ErrorBodyThrows string | ErrorBody error_detail

datatype ok_body = OkBodyRejects string | OkBody prediction_prop

datatype fetch_outcome =
    FetchRejects string
  | ResponseNotOk error_body
  | ResponseOk ok_body

text \<open>\<^verbatim>\<open>a || b\<close> on strings: the empty string is falsy.\<close>

definition js_or :: "string \<Rightarrow> string \<Rightarrow> string" where
  "js_or a b = (if a = [] then b else a)"

text \<open>
  The \<^verbatim>\<open>try\<close> block of \<^verbatim>\<open>processVideoWithModel\<close> after the \<^verbatim>\<open>fetch\<close> call:
  \<open>Inl\<close> the message of the error thrown in it, \<open>Inr\<close> the result that reaches
  the call of \<^verbatim>\<open>onPredictFromVideo\<close>.
\<close>

fun try_block :: "fetch_outcome \<Rightarrow> string + prediction_prop" where
  "try_block (FetchRejects msg) = Inl msg"
| "try_block (ResponseNotOk (ErrorBodyThrows msg)) = Inl msg"
| "try_block (ResponseNotOk (ErrorBody DetailFalsy)) = Inl ''Failed to process video''"
| "try_block (ResponseNotOk (ErrorBody (DetailTruthy t))) = Inl t"
| "try_block (ResponseOk (OkBodyRejects msg)) = Inl msg"
| "try_block (ResponseOk (OkBody result)) = Inr result"

section \<open>VideoUpload inside the page: state and handlers\<close>

text \<open>
  The state of the page (\<^verbatim>\<open>Home\<close>: \<open>prediction\<close>, \<open>loading\<close>, \<open>error\<close>,
  \<open>selectedVideo\<close>, \<open>uploadedVideoFile\<close>) and of \<^verbatim>\<open>VideoUpload\<close>
  (\<open>uploadedFile\<close>, \<open>uploadError\<close>, \<open>selectedModel\<close>) in one record: the
  callbacks \<^verbatim>\<open>VideoUpload\<close> receives are the page's setters. Three more fields
  observe the run: \<open>requests\<close> lists the calls of \<^verbatim>\<open>fetch\<close> so far,
  \<open>pending\<close> the files of the requests not yet answered (each continuation
  holds its file), and \<open>callbacks\<close> the calls of \<^verbatim>\<open>onPredictFromVideo\<close>.
\<close>

record client_state =
  prediction :: "prediction_prop option"
  loading :: bool
  error :: "string option"
  selectedVideo :: "string option"
  uploadedVideoFile :: "File option"
  uploadedFile :: "File option"
  uploadError :: "string option"
  selectedModel :: string
  requests :: "Request list"
  pending :: "File list"
  callbacks :: "(prediction_prop \<times> File) list"

definition initial_state :: client_state where
  "initial_state =
     \<lparr>prediction = None, loading = False, error = None, selectedVideo = None,
      uploadedVideoFile = None, uploadedFile = None, uploadError = None,
      selectedModel = ''gru'', requests = [], pending = [], callbacks = []\<rparr>"

text \<open>\<^verbatim>\<open>handlePredictionFromVideo\<close> of the page, passed as \<^verbatim>\<open>onPredictFromVideo\<close>.\<close>

definition handlePredictionFromVideo ::
  "prediction_prop \<Rightarrow> File \<Rightarrow> client_state \<Rightarrow> client_state" where
  "handlePredictionFromVideo result videoFile s =
     s\<lparr>prediction := Some result, uploadedVideoFile := Some videoFile,
       callbacks := callbacks s @ [(result, videoFile)]\<rparr>"

text \<open>
  \<^verbatim>\<open>processVideoWithModel\<close> up to its first \<^verbatim>\<open>await\<close>: the three setters, then
  the call of \<^verbatim>\<open>fetch\<close>.
\<close>

definition processVideoWithModel_start :: "File \<Rightarrow> string \<Rightarrow> client_state \<Rightarrow> client_state" where
  "processVideoWithModel_start file modelType s =
     s\<lparr>loading := True, error := None, uploadError := None,
       requests := requests s @ [fetch_request file modelType],
       pending := pending s @ [file]\<rparr>"

text \<open>
  The rest of \<^verbatim>\<open>processVideoWithModel\<close>, run when the request is answered: the
  \<^verbatim>\<open>try\<close> block, the \<^verbatim>\<open>catch\<close> clause, then \<^verbatim>\<open>finally\<close>.
\<close>

definition processVideoWithModel_resume ::
  "File \<Rightarrow> fetch_outcome \<Rightarrow> client_state \<Rightarrow> client_state" where
  "processVideoWithModel_resume file outcome s =
     (let s1 =
        (case try_block outcome of
           Inr result \<Rightarrow> handlePredictionFromVideo result file s
         | Inl message \<Rightarrow>
             (let errorMsg = js_or message ''Failed to process video''
              in s\<lparr>uploadError := Some errorMsg, error := Some errorMsg\<rparr>))
      in s1\<lparr>loading := False\<rparr>)"






text \<open>
  Modelled from the spec: the server that answers \<^verbatim>\<open>/predict-continuous\<close> is not
  part of the sources. For a video of duration \<open>D\<close> and 10-second windows the
  spec gives \<open>num_predictions = ceil (D / 10)\<close>, at least 1, and a timeline with
  one prediction per window.
\<close>

definition spec_timeline :: "ContinuousPredictions \<Rightarrow> bool" where
  "spec_timeline c \<longleftrightarrow>
     num_predictions c = max 1 \<lceil>video_duration c / 10\<rceil> \<and>
     int (length (predictions c)) = num_predictions c"

text \<open>
  Modelled from the spec: the ordering invariant of a ranked prediction, as far as
  the bar widths depend on it. The scores of \<open>top5\<close> are non-increasing and
  non-negative, and the first is positive.
\<close>

definition spec_ordering :: "Prediction list \<Rightarrow> bool" where
  "spec_ordering top5 \<longleftrightarrow>
     (case top5 of
        [] \<Rightarrow> False
      | p0 # rest \<Rightarrow>
          0 < confidence p0 \<and>
          sorted_wrt (\<lambda>a b. confidence b \<le> confidence a) top5 \<and>
          list_all (\<lambda>p. 0 \<le> confidence p) top5)"

section \<open>Example data\<close>

text \<open>
  The scenario of the spec: a 25-second video, three windows. The data below
  instantiate the theorems at concrete inputs.
\<close>

definition ex_p :: "int \<Rightarrow> string \<Rightarrow> real \<Rightarrow> Prediction" where
  "ex_p i n c = \<lparr>action_id = i, action_name = n, confidence = c\<rparr>"

definition ex_seg0 :: PredictionResult where
  "ex_seg0 =
     \<lparr>top_prediction = ex_p 0 ''Pirouette'' 0.5,
      top5_predictions =
        [ex_p 0 ''Pirouette'' 0.5, ex_p 2 ''Arabesque'' 0.25, ex_p 6 ''Attitude'' 0.1]\<rparr>"

definition ex_seg1 :: PredictionResult where
  "ex_seg1 =
     \<lparr>top_prediction = ex_p 2 ''Arabesque'' 0.5,
      top5_predictions = [ex_p 2 ''Arabesque'' 0.5, ex_p 0 ''Pirouette'' 0.25]\<rparr>"

definition ex_seg2 :: PredictionResult where
  "ex_seg2 =
     \<lparr>top_prediction = ex_p 9 ''Waltz Step'' 0.8765,
      top5_predictions =
        [ex_p 9 ''Waltz Step'' 0.8765, ex_p 6 ''Attitude'' 0.04, ex_p 0 ''Pirouette'' 0.03,
         ex_p 2 ''Arabesque'' 0.02, ex_p 7 ''Chaine Turn'' 0.02, ex_p 4 ''Pas de Bourree'' 0.01]\<rparr>"

definition ex_timeline :: ContinuousPredictions where
  "ex_timeline =
     \<lparr>video_duration = 25, num_predictions = 3, predictions = [ex_seg0, ex_seg1, ex_seg2]\<rparr>"

definition ex_state :: VideoPlayer_state where
  "ex_state =
     \<lparr>isPlaying = False, videoUrl = [], currentTime = 0, duration = 0,
      displayedPrediction = ex_p 0 ''Pirouette'' 0.5, currentSegment = 0\<rparr>"

definition ex_state2 :: VideoPlayer_state where
  "ex_state2 =
     \<lparr>isPlaying = True, videoUrl = [], currentTime = 25, duration = 25,
      displayedPrediction = ex_p 9 ''Waltz Step'' 0.8765, currentSegment = 2\<rparr>"

text \<open>Two results that break the ordering invariant of the spec.\<close>

definition ex_unsorted :: PredictionResult where
  "ex_unsorted =
     \<lparr>top_prediction = ex_p 2 ''Arabesque'' 0.5,
      top5_predictions = [ex_p 0 ''Pirouette'' 0.2, ex_p 2 ''Arabesque'' 0.5]\<rparr>"

definition ex_zero :: PredictionResult where
  "ex_zero =
     \<lparr>top_prediction = ex_p 0 ''Pirouette'' 0,
      top5_predictions = [ex_p 0 ''Pirouette'' 0, ex_p 2 ''Arabesque'' 0]\<rparr>"

text \<open>A stand-in for the exponent notation of the engine.\<close>

definition ex_toString :: "real \<Rightarrow> string" where
  "ex_toString x = ''1e+21''"

definition ex_file :: File where
  "ex_file = \<lparr>name = ''swan.lake.MP4'', bytes = [0, 1, 2]\<rparr>"


section \<open>Segment selection during playback\<close>

lemma segmentIndex_bounds:
  "segmentIndex t = k \<longleftrightarrow> 10 * real_of_int k \<le> t \<and> t < 10 * (real_of_int k + 1)"
  unfolding segmentIndex_def by (simp add: floor_eq_iff) linarith

lemma segmentIndex_nonneg: "0 \<le> t \<Longrightarrow> 0 \<le> segmentIndex t"
  unfolding segmentIndex_def by simp

lemma js_index_Some: "0 \<le> i \<Longrightarrow> i < int (length xs) \<Longrightarrow> js_index xs i = Some (xs ! nat i)"
  by (simp add: js_index_def)

lemma js_index_SomeD:
  "js_index xs i = Some x \<Longrightarrow> 0 \<le> i \<and> i < int (length xs) \<and> x = xs ! nat i"
  by (auto simp: js_index_def split: if_splits)

text \<open>
  C1. For a playback time \<open>t \<ge> 0\<close> the segment index is a natural number
  \<open>k\<close>, and it is \<open>k\<close> exactly on the window \<open>10 k \<le> t < 10 k + 10\<close>: the
  windows are the multiples of 10 seconds from 0. When the index is below the
  number of predictions and differs from the current segment, the handler sets
  the displayed prediction to the \<open>top_prediction\<close> of that segment (and the
  current segment to the index).
\<close>

theorem handleTimeUpdate_switches_segment:
  "0 \<le> t \<Longrightarrow>
     (\<exists>k::nat. segmentIndex t = int k \<and> 10 * real k \<le> t \<and> t < 10 * real k + 10) \<and>
     (\<forall>k::nat. (segmentIndex t = int k) = (10 * real k \<le> t \<and> t < 10 * real k + 10)) \<and>
     (segmentIndex t < int (length preds) \<and> segmentIndex t \<noteq> currentSegment s \<longrightarrow>
        handleTimeUpdate preds (Some t) s =
          Inr (s\<lparr>currentTime := t,
                 displayedPrediction := top_prediction (preds ! nat (segmentIndex t)),
                 currentSegment := segmentIndex t\<rparr>))"
proof (intro conjI allI impI)
  assume t: "0 \<le> t"
  have nn: "0 \<le> segmentIndex t" using t by (rule segmentIndex_nonneg)
  then obtain k :: nat where k: "segmentIndex t = int k"
    using nonneg_int_cases by blast
  from k have "10 * real k \<le> t \<and> t < 10 * real k + 10"
    using segmentIndex_bounds [of t "int k"] by simp
  with k show "\<exists>k::nat. segmentIndex t = int k \<and> 10 * real k \<le> t \<and> t < 10 * real k + 10"
    by blast
  show "(segmentIndex t = int k) = (10 * real k \<le> t \<and> t < 10 * real k + 10)" for k :: nat
    using segmentIndex_bounds [of t "int k"] by simp
  assume g: "segmentIndex t < int (length preds) \<and> segmentIndex t \<noteq> currentSegment s"
  with nn have "js_index preds (segmentIndex t) = Some (preds ! nat (segmentIndex t))"
    by (simp add: js_index_Some)
  with g show "handleTimeUpdate preds (Some t) s =
          Inr (s\<lparr>currentTime := t,
                 displayedPrediction := top_prediction (preds ! nat (segmentIndex t)),
                 currentSegment := segmentIndex t\<rparr>)"
    by (simp add: handleTimeUpdate_def Let_def)
qed

theorem handleTimeUpdate_switches_segment_witness:
  "(0::real) \<le> 25 \<and> segmentIndex 25 = 2 \<and>
   handleTimeUpdate (predictions ex_timeline) (Some 25) ex_state =
     Inr (ex_state\<lparr>currentTime := 25,
            displayedPrediction := ex_p 9 ''Waltz Step'' 0.8765,
            currentSegment := 2\<rparr>)"
  using handleTimeUpdate_switches_segment [of 25 "predictions ex_timeline" ex_state]
  by (simp add: ex_p_def ex_seg0_def ex_seg1_def ex_seg2_def ex_timeline_def ex_state_def
      segmentIndex_def)

text \<open>
  C2. Let a response satisfy the spec (\<open>num_predictions = ceil (D / 10)\<close>, at
  least 1, one prediction per window) for a duration \<open>D > 0\<close>. For every
  playback time \<open>0 \<le> t < D\<close> the index \<open>floor (t / 10)\<close> is below
  \<open>num_predictions\<close> and below the length of the array, and the array has an
  element there. The in-range part of the handler's guard therefore holds: the
  handler switches to the prediction at that index whenever the index differs
  from the current segment, and otherwise only records the time.
\<close>

theorem playback_index_in_range:
  "spec_timeline c \<Longrightarrow> 0 < video_duration c \<Longrightarrow> 0 \<le> t \<Longrightarrow> t < video_duration c \<Longrightarrow>
     0 \<le> segmentIndex t \<and>
     segmentIndex t < num_predictions c \<and>
     segmentIndex t < int (length (predictions_of (Continuous c))) \<and>
     nat (segmentIndex t) < length (predictions c) \<and>
     js_index (predictions_of (Continuous c)) (segmentIndex t) =
       Some (predictions c ! nat (segmentIndex t)) \<and>
     handleTimeUpdate (predictions_of (Continuous c)) (Some t) s =
       (if segmentIndex t = currentSegment s then Inr (s\<lparr>currentTime := t\<rparr>)
        else Inr (s\<lparr>currentTime := t,
                    displayedPrediction := top_prediction (predictions c ! nat (segmentIndex t)),
                    currentSegment := segmentIndex t\<rparr>))"
proof -
  assume sp: "spec_timeline c" and t0: "0 \<le> t" and tD: "t < video_duration c"
  have nn: "0 \<le> segmentIndex t" using t0 by (rule segmentIndex_nonneg)
  have "t / 10 < video_duration c / 10" using tD by simp
  then have "\<lfloor>t / 10\<rfloor> < \<lceil>video_duration c / 10\<rceil>" by linarith
  then have lt: "segmentIndex t < num_predictions c"
    using sp by (simp add: spec_timeline_def segmentIndex_def)
  then have len: "segmentIndex t < int (length (predictions c))"
    using sp by (simp add: spec_timeline_def)
  have n: "nat (segmentIndex t) < length (predictions c)"
    using nn len by linarith
  have idx: "js_index (predictions c) (segmentIndex t) = Some (predictions c ! nat (segmentIndex t))"
    using nn len by (rule js_index_Some)
  have h: "handleTimeUpdate (predictions c) (Some t) s =
       (if segmentIndex t = currentSegment s then Inr (s\<lparr>currentTime := t\<rparr>)
        else Inr (s\<lparr>currentTime := t,
                    displayedPrediction := top_prediction (predictions c ! nat (segmentIndex t)),
                    currentSegment := segmentIndex t\<rparr>))"
    using idx len by (simp add: handleTimeUpdate_def Let_def)
  from nn lt len n idx h show ?thesis by simp
qed

theorem playback_index_in_range_witness:
  "spec_timeline ex_timeline \<and> 0 < video_duration ex_timeline \<and>
   (0::real) \<le> 24.9 \<and> 24.9 < video_duration ex_timeline \<and>
   segmentIndex 24.9 = 2 \<and> segmentIndex 24.9 < num_predictions ex_timeline \<and>
   js_index (predictions_of (Continuous ex_timeline)) (segmentIndex 24.9) = Some ex_seg2 \<and>
   handleTimeUpdate (predictions_of (Continuous ex_timeline)) (Some 24.9) ex_state =
     Inr (ex_state\<lparr>currentTime := 24.9,
            displayedPrediction := ex_p 9 ''Waltz Step'' 0.8765,
            currentSegment := 2\<rparr>) \<and>
   handleTimeUpdate (predictions_of (Continuous ex_timeline)) (Some 24.9) ex_state2 =
     Inr (ex_state2\<lparr>currentTime := 24.9\<rparr>)"
proof -
  have sp: "spec_timeline ex_timeline"
    by (simp add: spec_timeline_def ex_timeline_def ceiling_divide_eq_div_numeral)
  have d: "0 < video_duration ex_timeline" "(0::real) \<le> 24.9" "24.9 < video_duration ex_timeline"
    by (simp_all add: ex_timeline_def)
  have i: "segmentIndex 24.9 = 2" by (simp add: segmentIndex_def)
  have cs: "currentSegment ex_state = 0" "currentSegment ex_state2 = 2"
    by (simp_all add: ex_state_def ex_state2_def)
  have e: "top_prediction ([ex_seg0, ex_seg1, ex_seg2] ! nat 2) = ex_p 9 ''Waltz Step'' 0.8765"
    by (simp add: ex_seg2_def)
  show ?thesis
    using playback_index_in_range [OF sp d, of ex_state]
          playback_index_in_range [OF sp d, of ex_state2] sp d i cs e
    by (simp add: ex_timeline_def)
qed

text \<open>
  C10. A time update changes \<open>displayedPrediction\<close> or \<open>currentSegment\<close> only
  when the element reports a time whose index is below the number of predictions
  and differs from the current segment. At or beyond 10 times the number of
  predictions both stay as they are. A time in an earlier segment than the
  current one updates both.
\<close>

lemma handleTimeUpdate_cases:
  "handleTimeUpdate preds v s = Inr s \<and> v = None \<or>
   (\<exists>t. v = Some t \<and>
      \<not> (segmentIndex t < int (length preds) \<and> segmentIndex t \<noteq> currentSegment s) \<and>
      handleTimeUpdate preds v s = Inr (s\<lparr>currentTime := t\<rparr>)) \<or>
   (\<exists>t. v = Some t \<and>
      segmentIndex t < int (length preds) \<and> segmentIndex t \<noteq> currentSegment s \<and>
      segmentIndex t < 0 \<and>
      handleTimeUpdate preds v s = Inl (TypeError, s\<lparr>currentTime := t\<rparr>)) \<or>
   (\<exists>t. v = Some t \<and>
      segmentIndex t < int (length preds) \<and> segmentIndex t \<noteq> currentSegment s \<and>
      0 \<le> segmentIndex t \<and>
      handleTimeUpdate preds v s =
        Inr (s\<lparr>currentTime := t,
               displayedPrediction := top_prediction (preds ! nat (segmentIndex t)),
               currentSegment := segmentIndex t\<rparr>))"
  by (cases v) (auto simp: handleTimeUpdate_def Let_def js_index_def)

theorem handleTimeUpdate_frame:
  "((handleTimeUpdate preds v s = Inr s' \<or> handleTimeUpdate preds v s = Inl (TypeError, s')) \<and>
      (displayedPrediction s' \<noteq> displayedPrediction s \<or> currentSegment s' \<noteq> currentSegment s)
      \<longrightarrow> (\<exists>t. v = Some t \<and> segmentIndex t < int (length preds) \<and>
                 segmentIndex t \<noteq> currentSegment s)) \<and>
   (10 * real (length preds) \<le> t \<longrightarrow>
      handleTimeUpdate preds (Some t) s = Inr (s\<lparr>currentTime := t\<rparr>) \<and>
      displayedPrediction (s\<lparr>currentTime := t\<rparr>) = displayedPrediction s \<and>
      currentSegment (s\<lparr>currentTime := t\<rparr>) = currentSegment s) \<and>
   (0 \<le> t \<and> segmentIndex t < currentSegment s \<and> currentSegment s < int (length preds) \<longrightarrow>
      (\<exists>s''. handleTimeUpdate preds (Some t) s = Inr s'' \<and>
         currentSegment s'' = segmentIndex t \<and>
         displayedPrediction s'' = top_prediction (preds ! nat (segmentIndex t))))"
proof -
  have p1: "(handleTimeUpdate preds v s = Inr s' \<or> handleTimeUpdate preds v s = Inl (TypeError, s')) \<and>
      (displayedPrediction s' \<noteq> displayedPrediction s \<or> currentSegment s' \<noteq> currentSegment s)
      \<longrightarrow> (\<exists>t. v = Some t \<and> segmentIndex t < int (length preds) \<and>
                 segmentIndex t \<noteq> currentSegment s)"
    using handleTimeUpdate_cases [of preds v s] by auto
  have p2: "10 * real (length preds) \<le> t \<longrightarrow>
      handleTimeUpdate preds (Some t) s = Inr (s\<lparr>currentTime := t\<rparr>) \<and>
      displayedPrediction (s\<lparr>currentTime := t\<rparr>) = displayedPrediction s \<and>
      currentSegment (s\<lparr>currentTime := t\<rparr>) = currentSegment s"
  proof
    assume b: "10 * real (length preds) \<le> t"
    have "int (length preds) \<le> segmentIndex t"
      unfolding segmentIndex_def using b by (simp add: le_floor_iff)
    then show "handleTimeUpdate preds (Some t) s = Inr (s\<lparr>currentTime := t\<rparr>) \<and>
      displayedPrediction (s\<lparr>currentTime := t\<rparr>) = displayedPrediction s \<and>
      currentSegment (s\<lparr>currentTime := t\<rparr>) = currentSegment s"
      by (simp add: handleTimeUpdate_def Let_def)
  qed
  have p3: "0 \<le> t \<and> segmentIndex t < currentSegment s \<and> currentSegment s < int (length preds) \<longrightarrow>
      (\<exists>s''. handleTimeUpdate preds (Some t) s = Inr s'' \<and>
         currentSegment s'' = segmentIndex t \<and>
         displayedPrediction s'' = top_prediction (preds ! nat (segmentIndex t)))"
  proof
    assume c: "0 \<le> t \<and> segmentIndex t < currentSegment s \<and> currentSegment s < int (length preds)"
    then have nn: "0 \<le> segmentIndex t" by (simp add: segmentIndex_nonneg)
    with c have "js_index preds (segmentIndex t) = Some (preds ! nat (segmentIndex t))"
      by (simp add: js_index_Some)
    with c show "\<exists>s''. handleTimeUpdate preds (Some t) s = Inr s'' \<and>
         currentSegment s'' = segmentIndex t \<and>
         displayedPrediction s'' = top_prediction (preds ! nat (segmentIndex t))"
      by (simp add: handleTimeUpdate_def Let_def)
  qed
  show ?thesis using p1 p2 p3 by blast
qed

theorem handleTimeUpdate_frame_witness:
  "handleTimeUpdate (predictions ex_timeline) (Some 25) ex_state = Inr (ex_state\<lparr>currentTime := 25, displayedPrediction := ex_p 9 ''Waltz Step'' 0.8765, currentSegment := 2\<rparr>) \<and>
   displayedPrediction (ex_state\<lparr>currentTime := 25, displayedPrediction := ex_p 9 ''Waltz Step'' 0.8765, currentSegment := 2\<rparr>) \<noteq> displayedPrediction ex_state \<and>
   segmentIndex 25 < int (length (predictions ex_timeline)) \<and>
   segmentIndex 25 \<noteq> currentSegment ex_state \<and>
   10 * real (length (predictions ex_timeline)) \<le> 31.5 \<and>
   handleTimeUpdate (predictions ex_timeline) (Some 31.5) ex_state2 =
     Inr (ex_state2\<lparr>currentTime := 31.5\<rparr>) \<and>
   (0::real) \<le> 3 \<and> segmentIndex 3 < currentSegment ex_state2 \<and>
   currentSegment ex_state2 < int (length (predictions ex_timeline)) \<and>
   handleTimeUpdate (predictions ex_timeline) (Some 3) ex_state2 =
     Inr (ex_state2\<lparr>currentTime := 3, displayedPrediction := ex_p 0 ''Pirouette'' 0.5,
            currentSegment := 0\<rparr>)"
  using handleTimeUpdate_frame
          [of "predictions ex_timeline" "Some 25" ex_state
              "ex_state\<lparr>currentTime := 25, displayedPrediction := ex_p 9 ''Waltz Step'' 0.8765, currentSegment := 2\<rparr>" "31.5"]
        handleTimeUpdate_frame
          [of "predictions ex_timeline" "Some 3" ex_state2
              "ex_state2\<lparr>currentTime := 3, displayedPrediction := ex_p 0 ''Pirouette'' 0.5,
                 currentSegment := 0\<rparr>" 3]
  by (simp add: handleTimeUpdate_def js_index_def segmentIndex_def ex_timeline_def ex_state_def
      ex_state2_def ex_seg0_def ex_seg1_def ex_seg2_def ex_p_def)

section \<open>Mounting the player\<close>

text \<open>
  C9. The first render reads \<open>predictions[0].top_prediction\<close> with no guard.
  A single result is wrapped into a one-element array, so the read succeeds. For
  a continuous response the read succeeds when the array has an element and
  throws a \<open>TypeError\<close> when it is empty: the render returns a state exactly
  when \<open>predictions\<close> is not empty. A response that satisfies the spec (at
  least one window) has an element.
\<close>

theorem VideoPlayer_init_defined:
  "VideoPlayer_init (Single r) =
     Inr \<lparr>isPlaying = False, videoUrl = [], currentTime = 0, duration = 0,
          displayedPrediction = top_prediction r, currentSegment = 0\<rparr> \<and>
   (predictions c \<noteq> [] \<longrightarrow>
      VideoPlayer_init (Continuous c) =
        Inr \<lparr>isPlaying = False, videoUrl = [], currentTime = 0, duration = 0,
             displayedPrediction = top_prediction (hd (predictions c)), currentSegment = 0\<rparr>) \<and>
   (predictions c = [] \<longrightarrow> VideoPlayer_init (Continuous c) = Inl TypeError) \<and>
   ((\<exists>s. VideoPlayer_init p = Inr s) \<longleftrightarrow> predictions_of p \<noteq> []) \<and>
   (spec_timeline c \<longrightarrow> (\<exists>s. VideoPlayer_init (Continuous c) = Inr s))"
proof -
  have e: "\<And>p. predictions_of p = [] \<Longrightarrow> VideoPlayer_init p = Inl TypeError"
    by (simp add: VideoPlayer_init_def js_index_def)
  have n: "\<And>p. predictions_of p \<noteq> [] \<Longrightarrow> VideoPlayer_init p =
        Inr \<lparr>isPlaying = False, videoUrl = [], currentTime = 0, duration = 0,
             displayedPrediction = top_prediction (hd (predictions_of p)), currentSegment = 0\<rparr>"
    by (simp add: VideoPlayer_init_def js_index_def hd_conv_nth)
  have iff: "(\<exists>s. VideoPlayer_init p = Inr s) \<longleftrightarrow> predictions_of p \<noteq> []"
    using e [of p] n [of p] by (cases "predictions_of p = []") auto
  have sp: "spec_timeline c \<Longrightarrow> predictions c \<noteq> []"
    by (auto simp: spec_timeline_def)
  show ?thesis using e [of "Continuous c"] n [of "Continuous c"] n [of "Single r"] iff sp
    by auto
qed

theorem VideoPlayer_init_defined_witness:
  "predictions ex_timeline \<noteq> [] \<and>
   VideoPlayer_init (Continuous ex_timeline) = Inr ex_state \<and>
   predictions (ex_timeline\<lparr>predictions := []\<rparr>) = [] \<and>
   VideoPlayer_init (Continuous (ex_timeline\<lparr>predictions := []\<rparr>)) = Inl TypeError \<and>
   VideoPlayer_init (Single ex_seg1) =
     Inr (ex_state\<lparr>displayedPrediction := ex_p 2 ''Arabesque'' 0.5\<rparr>) \<and>
   spec_timeline ex_timeline"
proof -
  have sp: "spec_timeline ex_timeline"
    by (simp add: spec_timeline_def ex_timeline_def ceiling_divide_eq_div_numeral)
  show ?thesis
    using VideoPlayer_init_defined [of ex_seg1 ex_timeline "Continuous ex_timeline"]
          VideoPlayer_init_defined [of ex_seg1 "ex_timeline\<lparr>predictions := []\<rparr>" "Single ex_seg1"]
          sp
    by (simp add: ex_timeline_def ex_state_def ex_seg0_def ex_seg1_def ex_p_def)
qed

section \<open>The rows of the top-5 list\<close>

lemma map_snd_enumerate_fun: "map (\<lambda>ip. f (snd ip)) (enumerate n xs) = map f xs"
  by (induction xs arbitrary: n) auto

lemma map_Suc_fst_enumerate:
  "map (\<lambda>ip. Suc (fst ip)) (enumerate n xs) = [Suc n..<Suc (n + length xs)]"
proof -
  have "map (\<lambda>ip. Suc (fst ip)) (enumerate n xs) = map Suc (map fst (enumerate n xs))"
    by (simp only: map_map comp_def)
  also have "\<dots> = map Suc [n..<n + length xs]"
    by (simp only: map_fst_enumerate)
  also have "\<dots> = [Suc n..<Suc (n + length xs)]"
    by (simp only: map_Suc_upt)
  finally show ?thesis .
qed

lemma enumerate_take: "enumerate n (take k xs) = take k (enumerate n xs)"
  by (induction xs arbitrary: n k) (auto simp: take_Cons split: nat.splits)

lemma set_enumerate_snd: "ip \<in> set (enumerate n xs) \<Longrightarrow> snd ip \<in> set xs"
  by (cases ip) (auto simp: in_set_enumerate_eq)

lemma VideoPlayer_top5_Some:
  "js_index preds (currentSegment s) = Some r \<Longrightarrow>
     VideoPlayer_top5 ts preds s =
       map (VideoPlayer_row ts (hd (top5_predictions r))) (enumerate 0 (take 5 (top5_predictions r)))"
  by (simp add: VideoPlayer_top5_def split: list.splits)

text \<open>
  C7. When \<open>predictions[currentSegment]\<close> is defined, \<open>VideoPlayer\<close> renders
  one row for each of the first 5 entries of its \<open>top5_predictions\<close>, in order,
  ranked from 1: the number of rows is \<open>min 5 (length top5_predictions)\<close>. When
  it is undefined no row is rendered.
\<close>

theorem VideoPlayer_top5_rows:
  "(js_index preds (currentSegment s) = Some r \<longrightarrow>
      length (VideoPlayer_top5 ts preds s) = min 5 (length (top5_predictions r)) \<and>
      map row_name (VideoPlayer_top5 ts preds s) = map action_name (take 5 (top5_predictions r)) \<and>
      map row_rank (VideoPlayer_top5 ts preds s) = [1..<Suc (min 5 (length (top5_predictions r)))]) \<and>
   (js_index preds (currentSegment s) = None \<longrightarrow> VideoPlayer_top5 ts preds s = [])"
proof -
  have n: "js_index preds (currentSegment s) = None \<longrightarrow> VideoPlayer_top5 ts preds s = []"
    by (simp add: VideoPlayer_top5_def)
  have a: "js_index preds (currentSegment s) = Some r \<longrightarrow>
      length (VideoPlayer_top5 ts preds s) = min 5 (length (top5_predictions r))"
    by (auto simp: VideoPlayer_top5_Some)
  have b: "js_index preds (currentSegment s) = Some r \<longrightarrow>
      map row_name (VideoPlayer_top5 ts preds s) = map action_name (take 5 (top5_predictions r))"
    by (simp add: VideoPlayer_top5_Some VideoPlayer_row_def comp_def map_snd_enumerate_fun)
  have c: "js_index preds (currentSegment s) = Some r \<longrightarrow>
      map row_rank (VideoPlayer_top5 ts preds s) = [1..<Suc (min 5 (length (top5_predictions r)))]"
    by (simp add: VideoPlayer_top5_Some VideoPlayer_row_def comp_def map_Suc_fst_enumerate
        min.commute)
  show ?thesis using n a b c by simp
qed

theorem VideoPlayer_top5_rows_witness:
  "js_index (predictions ex_timeline) (currentSegment ex_state2) = Some ex_seg2 \<and>
   length (top5_predictions ex_seg2) = 6 \<and>
   length (VideoPlayer_top5 ex_toString (predictions ex_timeline) ex_state2) = 5 \<and>
   map row_name (VideoPlayer_top5 ex_toString (predictions ex_timeline) ex_state2) =
     [''Waltz Step'', ''Attitude'', ''Pirouette'', ''Arabesque'', ''Chaine Turn''] \<and>
   js_index (predictions ex_timeline) (currentSegment (ex_state2\<lparr>currentSegment := 3\<rparr>)) = None \<and>
   VideoPlayer_top5 ex_toString (predictions ex_timeline) (ex_state2\<lparr>currentSegment := 3\<rparr>) = []"
  using VideoPlayer_top5_rows [of "predictions ex_timeline" ex_state2 ex_seg2 ex_toString]
        VideoPlayer_top5_rows
          [of "predictions ex_timeline" "ex_state2\<lparr>currentSegment := 3\<rparr>" ex_seg2 ex_toString]
  by (simp add: js_index_def ex_timeline_def ex_state2_def ex_seg2_def ex_p_def)

section \<open>Bar widths\<close>

lemma Math_max_eq: "xs \<noteq> [] \<Longrightarrow> Math_max xs = Fin (Max (set xs))"
proof (induction xs)
  case Nil
  then show ?case by simp
next
  case (Cons x xs)
  show ?case
  proof (cases "xs = []")
    case True
    then show ?thesis by simp
  next
    case False
    with Cons.IH show ?thesis by simp
  qed
qed

lemma spec_ordering_max:
  assumes "spec_ordering top5"
  shows "Math_max (map confidence top5) = Fin (confidence (hd top5))"
proof -
  from assms obtain p0 rest where t: "top5 = p0 # rest"
    by (auto simp: spec_ordering_def split: list.splits)
  from assms t have le: "\<forall>p \<in> set rest. confidence p \<le> confidence p0"
    by (auto simp: spec_ordering_def)
  have "Max (set (map confidence top5)) = confidence p0"
    unfolding t using le by (intro Max_eqI) auto
  then show ?thesis using t Math_max_eq [of "map confidence top5"] by simp
qed

lemma spec_ordering_width:
  assumes "spec_ordering top5" and "p \<in> set top5"
  shows "\<exists>w. js_times (js_div (Fin (confidence p)) (Fin (confidence (hd top5)))) (Fin 100) = Fin w
           \<and> 0 \<le> w \<and> w \<le> 100"
proof -
  from assms obtain p0 rest where t: "top5 = p0 # rest"
    by (auto simp: spec_ordering_def split: list.splits)
  from assms t have pos: "0 < confidence p0" and nn: "0 \<le> confidence p"
    and le: "confidence p \<le> confidence p0"
    by (auto simp: spec_ordering_def list_all_iff)
  have "0 \<le> confidence p / confidence p0 * 100 \<and> confidence p / confidence p0 * 100 \<le> 100"
    using pos nn le by (simp add: field_simps)
  moreover have "js_times (js_div (Fin (confidence p)) (Fin (confidence (hd top5)))) (Fin 100)
                 = Fin (confidence p / confidence p0 * 100)"
    using pos t by simp
  ultimately show ?thesis by blast
qed

lemma PredictionDisplay_eq_VideoPlayer_row:
  "spec_ordering (top5_predictions r) \<Longrightarrow>
     PredictionDisplay_row ts (maxConfidence r) = VideoPlayer_row ts (hd (top5_predictions r))"
  by (simp add: fun_eq_iff PredictionDisplay_row_def VideoPlayer_row_def maxConfidence_def
      spec_ordering_max)

text \<open>
  C8. Let the \<open>top5_predictions\<close> of the displayed segment satisfy the ordering
  invariant of the spec. Then the maximum confidence that \<open>PredictionDisplay\<close>
  divides by is the confidence of the first entry, which \<open>VideoPlayer\<close> divides
  by; the rows of \<open>VideoPlayer\<close> are the first 5 rows of \<open>PredictionDisplay\<close>,
  widths included; and every width of either is a finite number in \<open>[0, 100]\<close>.
  Without the invariant: when the first confidence is 0 the width that
  \<open>VideoPlayer\<close> computes is not a finite number, and when an entry has a larger
  confidence than a positive first one its width exceeds 100.
\<close>

theorem bar_widths_agree:
  "(spec_ordering (top5_predictions r) \<and> js_index preds (currentSegment s) = Some r \<longrightarrow>
      maxConfidence r = Fin (confidence (hd (top5_predictions r))) \<and>
      VideoPlayer_top5 ts preds s = take 5 (PredictionDisplay_top5 ts r) \<and>
      (\<forall>row \<in> set (PredictionDisplay_top5 ts r) \<union> set (VideoPlayer_top5 ts preds s).
         \<exists>w. row_width row = Fin w \<and> 0 \<le> w \<and> w \<le> 100)) \<and>
   (confidence p0 = 0 \<longrightarrow> (\<forall>w. row_width (VideoPlayer_row ts p0 ip) \<noteq> Fin w)) \<and>
   (0 < confidence p0 \<and> confidence p0 < confidence (snd ip) \<longrightarrow>
      (\<exists>w. row_width (VideoPlayer_row ts p0 ip) = Fin w \<and> 100 < w))"
proof -
  have a: "spec_ordering (top5_predictions r) \<and> js_index preds (currentSegment s) = Some r \<longrightarrow>
      maxConfidence r = Fin (confidence (hd (top5_predictions r))) \<and>
      VideoPlayer_top5 ts preds s = take 5 (PredictionDisplay_top5 ts r) \<and>
      (\<forall>row \<in> set (PredictionDisplay_top5 ts r) \<union> set (VideoPlayer_top5 ts preds s).
         \<exists>w. row_width row = Fin w \<and> 0 \<le> w \<and> w \<le> 100)"
  proof
    assume h: "spec_ordering (top5_predictions r) \<and> js_index preds (currentSegment s) = Some r"
    then have so: "spec_ordering (top5_predictions r)"
      and ix: "js_index preds (currentSegment s) = Some r" by simp_all
    have m: "maxConfidence r = Fin (confidence (hd (top5_predictions r)))"
      using so by (simp add: maxConfidence_def spec_ordering_max)
    have e: "VideoPlayer_top5 ts preds s = take 5 (PredictionDisplay_top5 ts r)"
      using so ix
      by (simp add: VideoPlayer_top5_Some PredictionDisplay_top5_def
          PredictionDisplay_eq_VideoPlayer_row enumerate_take take_map)
    have w: "\<exists>w. row_width row = Fin w \<and> 0 \<le> w \<and> w \<le> 100"
      if "row \<in> set (PredictionDisplay_top5 ts r)" for row
    proof -
      from that obtain ip where ip: "ip \<in> set (enumerate 0 (top5_predictions r))"
        and row: "row = VideoPlayer_row ts (hd (top5_predictions r)) ip"
        using so by (auto simp: PredictionDisplay_top5_def PredictionDisplay_eq_VideoPlayer_row)
      from ip have "snd ip \<in> set (top5_predictions r)" by (rule set_enumerate_snd)
      from spec_ordering_width [OF so this] show ?thesis
        by (simp add: row VideoPlayer_row_def)
    qed
    have "set (VideoPlayer_top5 ts preds s) \<subseteq> set (PredictionDisplay_top5 ts r)"
      unfolding e by (rule set_take_subset)
    with w m e show "maxConfidence r = Fin (confidence (hd (top5_predictions r))) \<and>
      VideoPlayer_top5 ts preds s = take 5 (PredictionDisplay_top5 ts r) \<and>
      (\<forall>row \<in> set (PredictionDisplay_top5 ts r) \<union> set (VideoPlayer_top5 ts preds s).
         \<exists>w. row_width row = Fin w \<and> 0 \<le> w \<and> w \<le> 100)"
      by blast
  qed
  have b: "confidence p0 = 0 \<longrightarrow> (\<forall>w. row_width (VideoPlayer_row ts p0 ip) \<noteq> Fin w)"
    by (simp add: VideoPlayer_row_def)
  have c: "0 < confidence p0 \<and> confidence p0 < confidence (snd ip) \<longrightarrow>
      (\<exists>w. row_width (VideoPlayer_row ts p0 ip) = Fin w \<and> 100 < w)"
  proof
    assume h: "0 < confidence p0 \<and> confidence p0 < confidence (snd ip)"
    then have "100 < confidence (snd ip) * 100 / confidence p0"
      by (simp add: pos_less_divide_eq)
    moreover have "row_width (VideoPlayer_row ts p0 ip) = Fin (confidence (snd ip) * 100 / confidence p0)"
      using h by (simp add: VideoPlayer_row_def)
    ultimately show "\<exists>w. row_width (VideoPlayer_row ts p0 ip) = Fin w \<and> 100 < w" by blast
  qed
  show ?thesis by (rule conjI [OF a conjI [OF b c]])
qed

theorem bar_widths_agree_witness:
  "spec_ordering (top5_predictions ex_seg0) \<and>
   js_index (predictions ex_timeline) (currentSegment ex_state) = Some ex_seg0 \<and>
   maxConfidence ex_seg0 = Fin 0.5 \<and>
   map row_width (VideoPlayer_top5 ex_toString (predictions ex_timeline) ex_state) =
     [Fin 100, Fin 50, Fin 20] \<and>
   map row_width (PredictionDisplay_top5 ex_toString ex_seg0) = [Fin 100, Fin 50, Fin 20] \<and>
   confidence (ex_p 0 ''Pirouette'' 0) = 0 \<and>
   map row_width (VideoPlayer_top5 ex_toString [ex_zero] ex_state) = [NaN, NaN] \<and>
   0 < confidence (ex_p 0 ''Pirouette'' 0.2) \<and>
   confidence (ex_p 0 ''Pirouette'' 0.2) < confidence (snd (1::nat, ex_p 2 ''Arabesque'' 0.5)) \<and>
   map row_width (VideoPlayer_top5 ex_toString [ex_unsorted] ex_state) = [Fin 100, Fin 250] \<and>
   map row_width (PredictionDisplay_top5 ex_toString ex_unsorted) = [Fin 40, Fin 100]"
proof -
  have so: "spec_ordering (top5_predictions ex_seg0)"
    by (simp add: spec_ordering_def ex_seg0_def ex_p_def)
  have ix: "js_index (predictions ex_timeline) (currentSegment ex_state) = Some ex_seg0"
    by (simp add: js_index_def ex_timeline_def ex_state_def)
  have vp: "map row_width (VideoPlayer_top5 ex_toString (predictions ex_timeline) ex_state) =
     [Fin 100, Fin 50, Fin 20]"
    using ix by (simp add: VideoPlayer_top5_def VideoPlayer_row_def ex_seg0_def ex_p_def)
  have z: "map row_width (VideoPlayer_top5 ex_toString [ex_zero] ex_state) = [NaN, NaN]"
    by (simp add: VideoPlayer_top5_def VideoPlayer_row_def js_index_def ex_zero_def ex_p_def
        ex_state_def)
  have u: "map row_width (VideoPlayer_top5 ex_toString [ex_unsorted] ex_state) = [Fin 100, Fin 250]"
    by (simp add: VideoPlayer_top5_def VideoPlayer_row_def js_index_def ex_unsorted_def ex_p_def
        ex_state_def)
  have pd: "map row_width (PredictionDisplay_top5 ex_toString ex_unsorted) = [Fin 40, Fin 100]"
    by (simp add: PredictionDisplay_top5_def PredictionDisplay_row_def maxConfidence_def
        ex_unsorted_def ex_p_def)
  have c: "confidence (ex_p 0 ''Pirouette'' 0) = 0" "0 < confidence (ex_p 0 ''Pirouette'' 0.2)"
    "confidence (ex_p 0 ''Pirouette'' 0.2) < confidence (snd (1::nat, ex_p 2 ''Arabesque'' 0.5))"
    by (simp_all add: ex_p_def)
  have t: "maxConfidence ex_seg0 = Fin 0.5 \<and>
      map row_width (PredictionDisplay_top5 ex_toString ex_seg0) = [Fin 100, Fin 50, Fin 20]"
    using bar_widths_agree
            [of ex_seg0 "predictions ex_timeline" ex_state ex_toString
                "ex_p 0 ''Pirouette'' 0" "(1::nat, ex_p 2 ''Arabesque'' 0.5)"]
          so ix vp
    by (simp add: PredictionDisplay_top5_def ex_seg0_def ex_p_def)
  show ?thesis using so ix vp z u pd c t by simp
qed


section \<open>Confidence texts\<close>

lemma digits10_small: "n < 10 \<Longrightarrow> digits10 n = [digit_char n]"
  by (subst digits10.simps) simp

lemma digits10_large: "10 \<le> n \<Longrightarrow> digits10 n = digits10 (n div 10) @ [digit_char (n mod 10)]"
  by (subst digits10.simps) simp

lemma length_digits10: "Suc 0 \<le> length (digits10 n)"
  by (subst digits10.simps) simp

lemma div_100_nat: "(n::nat) div 100 = n div 10 div 10"
proof -
  have "n div (10 * 10) = n div 10 div 10" by (rule div_mult2_eq)
  then show ?thesis
    by (simp only: mult_numeral_left_semiring_numeral numeral_times_numeral semiring_norm)
qed

lemma digits10_pad:
  "replicate (3 - length (digits10 n)) (CHR ''0'') @ digits10 n =
     digits10 (n div 100) @ [digit_char (n div 10 mod 10), digit_char (n mod 10)]"
proof -
  have zero: "digit_char 0 = CHR ''0''" by (simp add: digit_char_def)
  consider "n < 10" | "10 \<le> n" "n < 100" | "100 \<le> n" by linarith
  then show ?thesis
  proof cases
    case 1
    then show ?thesis by (simp add: digits10_small zero numeral_3_eq_3)
  next
    case 2
    then have "n div 10 < 10" by simp
    with 2 show ?thesis by (simp add: digits10_large [of n] digits10_small zero)
  next
    case 3
    then have g: "10 \<le> n div 10" by simp
    have d: "digits10 (n div 10) = digits10 (n div 10 div 10) @ [digit_char (n div 10 mod 10)]"
      using g by (rule digits10_large)
    have f: "digits10 n = digits10 (n div 10) @ [digit_char (n mod 10)]"
      using 3 by (intro digits10_large) linarith
    have "digits10 n =
        digits10 (n div 100) @ [digit_char (n div 10 mod 10), digit_char (n mod 10)]"
      by (simp only: f d div_100_nat append_assoc append_Cons append_Nil)
    moreover have "3 \<le> length (digits10 n)"
      by (simp only: f d length_append list.size) (simp add: length_digits10)
    ultimately show ?thesis by simp
  qed
qed

lemma toFixed_2_form:
  assumes "0 \<le> x" and "x < 10 ^ 21"
  shows "toFixed ts 2 x =
           digits10 (nat \<lfloor>x * 100 + 1 / 2\<rfloor> div 100) @ ''.'' @
           [digit_char (nat \<lfloor>x * 100 + 1 / 2\<rfloor> div 10 mod 10),
            digit_char (nat \<lfloor>x * 100 + 1 / 2\<rfloor> mod 10)]"
proof -
  define n where "n = nat \<lfloor>x * 100 + 1 / 2\<rfloor>"
  define z where "z = replicate (3 - length (digits10 n)) (CHR ''0'') @ digits10 n"
  have z: "z = digits10 (n div 100) @ [digit_char (n div 10 mod 10), digit_char (n mod 10)]"
    unfolding z_def by (rule digits10_pad)
  have "toFixed ts 2 x = take (length z - 2) z @ ''.'' @ drop (length z - 2) z"
    using assms by (simp add: toFixed_def Let_def n_def z_def)
  also have "\<dots> = digits10 (n div 100) @ ''.'' @
      [digit_char (n div 10 mod 10), digit_char (n mod 10)]"
    by (simp add: z)
  finally show ?thesis by (simp add: n_def)
qed

lemma toFixed_2_nearest:
  assumes "0 \<le> x"
  shows "\<bar>real (nat \<lfloor>x * 100 + 1 / 2\<rfloor>) / 100 - x\<bar> \<le> 1 / 200"
proof -
  have "0 \<le> \<lfloor>x * 100 + 1 / 2\<rfloor>" using assms by simp
  then have "real (nat \<lfloor>x * 100 + 1 / 2\<rfloor>) = of_int \<lfloor>x * 100 + 1 / 2\<rfloor>" by simp
  then show ?thesis by linarith
qed

lemma VideoPlayer_handle_displayed:
  "VideoPlayer_handle ps e s = Inr s' \<or> VideoPlayer_handle ps e s = Inl (err, s') \<Longrightarrow>
     displayedPrediction s' = displayedPrediction s \<or>
     displayedPrediction s' \<in> top_prediction ` set ps"
proof (cases e)
  case (TimeUpdate v)
  assume "VideoPlayer_handle ps e s = Inr s' \<or> VideoPlayer_handle ps e s = Inl (err, s')"
  with TimeUpdate show ?thesis
    using handleTimeUpdate_cases [of ps v s] by (auto simp: nth_mem)
qed (auto simp: handleLoadedMetadata_def handlePlayPause_def split: option.splits if_splits)

lemma VideoPlayer_run_displayed:
  "displayedPrediction s \<in> top_prediction ` A \<Longrightarrow> (\<Union>pe \<in> set evs. set (fst pe)) \<subseteq> A \<Longrightarrow>
     displayedPrediction (VideoPlayer_run evs s) \<in> top_prediction ` A"
proof (induction evs arbitrary: s)
  case Nil
  then show ?case by simp
next
  case (Cons pe evs)
  have sub: "set (fst pe) \<subseteq> A" "(\<Union>pe \<in> set evs. set (fst pe)) \<subseteq> A"
    using Cons.prems(2) by auto
  show ?case
  proof (cases "VideoPlayer_handle (fst pe) (snd pe) s")
    case (Inl a)
    obtain err s' where a: "a = (err, s')" by (cases a)
    have "displayedPrediction s' \<in> top_prediction ` A"
      using VideoPlayer_handle_displayed [of "fst pe" "snd pe" s s' err] Inl a Cons.prems(1) sub(1)
      by auto
    then show ?thesis using Cons.IH [OF _ sub(2)] Inl a by simp
  next
    case (Inr s')
    have "displayedPrediction s' \<in> top_prediction ` A"
      using VideoPlayer_handle_displayed [of "fst pe" "snd pe" s s'] Inr Cons.prems(1) sub(1)
      by auto
    then show ?thesis using Cons.IH [OF _ sub(2)] Inr by simp
  qed
qed

text \<open>
  C6. Every confidence text is \<open>toFixed(2)\<close> of a confidence of a response,
  as received. In \<open>VideoPlayer\<close>, after any events on the state of the first
  render, the text of the top prediction is \<open>toFixed(2)\<close> of the confidence of
  the \<open>top_prediction\<close> of a result of the first or a later \<open>predictions\<close>
  array, and the text of each row is \<open>toFixed(2)\<close> of the confidence of its
  entry. The same holds for the top prediction and the rows of
  \<open>PredictionDisplay\<close>. For \<open>0 \<le> x < 10^21\<close> the text \<open>toFixed(2)\<close> of
  \<open>x\<close> is the decimal numeral of \<open>n div 100\<close>, a point and the two digits of
  \<open>n mod 100\<close>, where \<open>n\<close> is an integer with \<open>|n / 100 - x| \<le> 1 / 200\<close>: two
  decimal places of the value itself.
\<close>

theorem confidence_texts_raw:
  "(VideoPlayer_init p = Inr s0 \<longrightarrow>
      (\<exists>r \<in> set (predictions_of p) \<union> (\<Union>pe \<in> set evs. set (fst pe)).
         VideoPlayer_confidence ts (VideoPlayer_run evs s0) =
           toFixed ts 2 (confidence (top_prediction r)))) \<and>
   map row_confidence (VideoPlayer_top5 ts preds s) =
     (case js_index preds (currentSegment s) of
        None \<Rightarrow> []
      | Some r \<Rightarrow> map (\<lambda>p. toFixed ts 2 (confidence p)) (take 5 (top5_predictions r))) \<and>
   PredictionDisplay_confidence ts r = toFixed ts 2 (confidence (top_prediction r)) \<and>
   map row_confidence (PredictionDisplay_top5 ts r) =
     map (\<lambda>p. toFixed ts 2 (confidence p)) (top5_predictions r) \<and>
   (0 \<le> x \<and> x < 10 ^ 21 \<longrightarrow>
      toFixed ts 2 x =
        digits10 (nat \<lfloor>x * 100 + 1 / 2\<rfloor> div 100) @ ''.'' @
        [digit_char (nat \<lfloor>x * 100 + 1 / 2\<rfloor> div 10 mod 10),
         digit_char (nat \<lfloor>x * 100 + 1 / 2\<rfloor> mod 10)] \<and>
      \<bar>real (nat \<lfloor>x * 100 + 1 / 2\<rfloor>) / 100 - x\<bar> \<le> 1 / 200)"
proof -
  have a: "VideoPlayer_init p = Inr s0 \<longrightarrow>
      (\<exists>r \<in> set (predictions_of p) \<union> (\<Union>pe \<in> set evs. set (fst pe)).
         VideoPlayer_confidence ts (VideoPlayer_run evs s0) =
           toFixed ts 2 (confidence (top_prediction r)))"
  proof
    assume i: "VideoPlayer_init p = Inr s0"
    define A where "A = set (predictions_of p) \<union> (\<Union>pe \<in> set evs. set (fst pe))"
    from i obtain r0 where "js_index (predictions_of p) 0 = Some r0"
      and s0: "displayedPrediction s0 = top_prediction r0"
      by (auto simp: VideoPlayer_init_def split: option.splits)
    then have "r0 \<in> set (predictions_of p)"
      by (auto dest!: js_index_SomeD)
    with s0 have "displayedPrediction s0 \<in> top_prediction ` A" by (auto simp: A_def)
    moreover have "(\<Union>pe \<in> set evs. set (fst pe)) \<subseteq> A" by (auto simp: A_def)
    ultimately have "displayedPrediction (VideoPlayer_run evs s0) \<in> top_prediction ` A"
      by (rule VideoPlayer_run_displayed)
    then obtain r where "r \<in> A" "displayedPrediction (VideoPlayer_run evs s0) = top_prediction r"
      by auto
    then show "\<exists>r \<in> set (predictions_of p) \<union> (\<Union>pe \<in> set evs. set (fst pe)).
         VideoPlayer_confidence ts (VideoPlayer_run evs s0) =
           toFixed ts 2 (confidence (top_prediction r))"
      unfolding A_def VideoPlayer_confidence_def by auto
  qed
  have b: "map row_confidence (VideoPlayer_top5 ts preds s) =
     (case js_index preds (currentSegment s) of
        None \<Rightarrow> []
      | Some r \<Rightarrow> map (\<lambda>p. toFixed ts 2 (confidence p)) (take 5 (top5_predictions r)))"
  proof (cases "js_index preds (currentSegment s)")
    case None
    then show ?thesis by (simp add: VideoPlayer_top5_def)
  next
    case (Some r')
    then show ?thesis
      by (simp add: VideoPlayer_top5_Some VideoPlayer_row_def comp_def
          map_snd_enumerate_fun [of "\<lambda>p. toFixed ts 2 (confidence p)"])
  qed
  have c: "PredictionDisplay_confidence ts r = toFixed ts 2 (confidence (top_prediction r))"
    by (simp add: PredictionDisplay_confidence_def)
  have d: "map row_confidence (PredictionDisplay_top5 ts r) =
     map (\<lambda>p. toFixed ts 2 (confidence p)) (top5_predictions r)"
    by (simp add: PredictionDisplay_top5_def PredictionDisplay_row_def comp_def
        map_snd_enumerate_fun [of "\<lambda>p. toFixed ts 2 (confidence p)"])
  have e: "0 \<le> x \<and> x < 10 ^ 21 \<longrightarrow>
      toFixed ts 2 x =
        digits10 (nat \<lfloor>x * 100 + 1 / 2\<rfloor> div 100) @ ''.'' @
        [digit_char (nat \<lfloor>x * 100 + 1 / 2\<rfloor> div 10 mod 10),
         digit_char (nat \<lfloor>x * 100 + 1 / 2\<rfloor> mod 10)] \<and>
      \<bar>real (nat \<lfloor>x * 100 + 1 / 2\<rfloor>) / 100 - x\<bar> \<le> 1 / 200"
    using toFixed_2_form [of x ts] toFixed_2_nearest [of x] by blast
  show ?thesis by (rule conjI [OF a conjI [OF b conjI [OF c conjI [OF d e]]]])
qed

theorem confidence_texts_raw_witness:
  "VideoPlayer_init (Continuous ex_timeline) = Inr ex_state \<and>
   VideoPlayer_confidence ex_toString
     (VideoPlayer_run [(predictions ex_timeline, TimeUpdate (Some 25))] ex_state) = ''0.88'' \<and>
   map row_confidence (VideoPlayer_top5 ex_toString (predictions ex_timeline) ex_state) =
     [''0.50'', ''0.25'', ''0.10''] \<and>
   PredictionDisplay_confidence ex_toString ex_seg2 = ''0.88'' \<and>
   (0::real) \<le> 0.8765 \<and> (0.8765::real) < 10 ^ 21 \<and>
   toFixed ex_toString 2 0.8765 = ''0.88''"
proof -
  have i: "VideoPlayer_init (Continuous ex_timeline) = Inr ex_state"
    by (simp add: VideoPlayer_init_def js_index_def ex_timeline_def ex_state_def ex_seg0_def
        ex_p_def)
  have f: "toFixed ex_toString 2 0.8765 = ''0.88''" "toFixed ex_toString 2 0.5 = ''0.50''"
    "toFixed ex_toString 2 0.25 = ''0.25''" "toFixed ex_toString 2 0.1 = ''0.10''"
    by (simp_all add: toFixed_def digits10.simps digit_char_def Let_def)
  have r: "VideoPlayer_run [(predictions ex_timeline, TimeUpdate (Some 25))] ex_state =
      ex_state\<lparr>currentTime := 25, displayedPrediction := ex_p 9 ''Waltz Step'' 0.8765,
        currentSegment := 2\<rparr>"
    by (simp add: handleTimeUpdate_def js_index_def segmentIndex_def ex_timeline_def ex_state_def
        ex_seg0_def ex_seg1_def ex_seg2_def ex_p_def)
  have t: "map row_confidence (VideoPlayer_top5 ex_toString (predictions ex_timeline) ex_state) =
     [toFixed ex_toString 2 0.5, toFixed ex_toString 2 0.25, toFixed ex_toString 2 0.1] \<and>
     PredictionDisplay_confidence ex_toString ex_seg2 = toFixed ex_toString 2 0.8765"
    using confidence_texts_raw
            [of "Continuous ex_timeline" ex_state
                "[(predictions ex_timeline, TimeUpdate (Some 25))]" ex_toString
                "predictions ex_timeline" ex_state ex_seg2 "0.8765"]
    by (simp add: js_index_def ex_timeline_def ex_state_def ex_seg0_def ex_seg2_def ex_p_def)
  show ?thesis using i f r t by (simp add: VideoPlayer_confidence_def ex_p_def)
qed


section \<open>Choosing a file\<close>













section \<open>Answers to a request\<close>

lemma js_or_nonempty: "js_or a ''Failed to process video'' \<noteq> []"
  by (simp add: js_or_def)

text \<open>
  C5. Let the answer be anything but an ok response with a parsed body: a
  rejected \<open>fetch\<close>, a response that is not ok, or an ok response whose body
  does not parse. Then the continuation of \<open>processVideoWithModel\<close> does not call
  \<open>onPredictFromVideo\<close>, leaves \<open>prediction\<close> and \<open>uploadedVideoFile\<close> as
  they were, and sets \<open>error\<close> and \<open>uploadError\<close> to the same non-empty
  message; apart from these two fields and \<open>loading\<close> the state is unchanged. With a parsed ok body it calls \<open>onPredictFromVideo\<close> once with the
  result and the file. After either, \<open>loading\<close> is false.
\<close>

theorem failed_request_no_result:
  "((\<forall>result. outcome \<noteq> ResponseOk (OkBody result)) \<longrightarrow>
      callbacks (processVideoWithModel_resume file outcome s) = callbacks s \<and>
      prediction (processVideoWithModel_resume file outcome s) = prediction s \<and>
      uploadedVideoFile (processVideoWithModel_resume file outcome s) = uploadedVideoFile s \<and>
      (\<exists>msg. msg \<noteq> [] \<and>
         error (processVideoWithModel_resume file outcome s) = Some msg \<and>
         uploadError (processVideoWithModel_resume file outcome s) = Some msg \<and>
         processVideoWithModel_resume file outcome s =
           s\<lparr>loading := False, error := Some msg, uploadError := Some msg\<rparr>)) \<and>
   (outcome = ResponseOk (OkBody result) \<longrightarrow>
      callbacks (processVideoWithModel_resume file outcome s) = callbacks s @ [(result, file)] \<and>
      prediction (processVideoWithModel_resume file outcome s) = Some result \<and>
      uploadedVideoFile (processVideoWithModel_resume file outcome s) = Some file \<and>
      error (processVideoWithModel_resume file outcome s) = error s) \<and>
   \<not> loading (processVideoWithModel_resume file outcome s) \<and>
   loading (processVideoWithModel_start file modelType s)"
proof -
  have f: "(\<forall>result. outcome \<noteq> ResponseOk (OkBody result)) \<Longrightarrow> \<exists>m. try_block outcome = Inl m"
    by (cases outcome rule: try_block.cases) auto
  have a: "(\<forall>result. outcome \<noteq> ResponseOk (OkBody result)) \<longrightarrow>
      callbacks (processVideoWithModel_resume file outcome s) = callbacks s \<and>
      prediction (processVideoWithModel_resume file outcome s) = prediction s \<and>
      uploadedVideoFile (processVideoWithModel_resume file outcome s) = uploadedVideoFile s \<and>
      (\<exists>msg. msg \<noteq> [] \<and>
         error (processVideoWithModel_resume file outcome s) = Some msg \<and>
         uploadError (processVideoWithModel_resume file outcome s) = Some msg \<and>
         processVideoWithModel_resume file outcome s =
           s\<lparr>loading := False, error := Some msg, uploadError := Some msg\<rparr>)"
  proof
    assume "\<forall>result. outcome \<noteq> ResponseOk (OkBody result)"
    then obtain m where m: "try_block outcome = Inl m" using f by blast
    show "callbacks (processVideoWithModel_resume file outcome s) = callbacks s \<and>
      prediction (processVideoWithModel_resume file outcome s) = prediction s \<and>
      uploadedVideoFile (processVideoWithModel_resume file outcome s) = uploadedVideoFile s \<and>
      (\<exists>msg. msg \<noteq> [] \<and>
         error (processVideoWithModel_resume file outcome s) = Some msg \<and>
         uploadError (processVideoWithModel_resume file outcome s) = Some msg \<and>
         processVideoWithModel_resume file outcome s =
           s\<lparr>loading := False, error := Some msg, uploadError := Some msg\<rparr>)"
      using js_or_nonempty [of m]
      by (simp add: processVideoWithModel_resume_def Let_def m)
  qed
  have b: "outcome = ResponseOk (OkBody result) \<longrightarrow>
      callbacks (processVideoWithModel_resume file outcome s) = callbacks s @ [(result, file)] \<and>
      prediction (processVideoWithModel_resume file outcome s) = Some result \<and>
      uploadedVideoFile (processVideoWithModel_resume file outcome s) = Some file \<and>
      error (processVideoWithModel_resume file outcome s) = error s"
    by (simp add: processVideoWithModel_resume_def handlePredictionFromVideo_def)
  have c: "\<not> loading (processVideoWithModel_resume file outcome s)"
    by (simp add: processVideoWithModel_resume_def Let_def)
  have d: "loading (processVideoWithModel_start file modelType s)"
    by (simp add: processVideoWithModel_start_def)
  show ?thesis by (rule conjI [OF a conjI [OF b conjI [OF c d]]])
qed

theorem failed_request_no_result_witness:
  "error (processVideoWithModel_resume ex_file
            (ResponseNotOk (ErrorBody (DetailTruthy ''Video too short'')))
            (processVideoWithModel_start ex_file ''gru'' initial_state)) =
     Some ''Video too short'' \<and>
   callbacks (processVideoWithModel_resume ex_file
            (ResponseNotOk (ErrorBody (DetailTruthy ''Video too short'')))
            (processVideoWithModel_start ex_file ''gru'' initial_state)) = [] \<and>
   prediction (processVideoWithModel_resume ex_file
            (ResponseNotOk (ErrorBody (DetailTruthy ''Video too short'')))
            (processVideoWithModel_start ex_file ''gru'' initial_state)) = None \<and>
   error (processVideoWithModel_resume ex_file (FetchRejects [])
            (processVideoWithModel_start ex_file ''gru'' initial_state)) =
     Some ''Failed to process video'' \<and>
   callbacks (processVideoWithModel_resume ex_file (ResponseOk (OkBody (Continuous ex_timeline)))
            (processVideoWithModel_start ex_file ''gru'' initial_state)) =
     [(Continuous ex_timeline, ex_file)] \<and>
   \<not> loading (processVideoWithModel_resume ex_file (FetchRejects [])
            (processVideoWithModel_start ex_file ''gru'' initial_state))"
  using failed_request_no_result
          [of "ResponseNotOk (ErrorBody (DetailTruthy ''Video too short''))" ex_file
              "processVideoWithModel_start ex_file ''gru'' initial_state"
              "Continuous ex_timeline" "''gru''"]
        failed_request_no_result
          [of "FetchRejects []" ex_file
              "processVideoWithModel_start ex_file ''gru'' initial_state"
              "Continuous ex_timeline" "''gru''"]
        failed_request_no_result
          [of "ResponseOk (OkBody (Continuous ex_timeline))" ex_file
              "processVideoWithModel_start ex_file ''gru'' initial_state"
              "Continuous ex_timeline" "''gru''"]
  by (simp add: processVideoWithModel_resume_def processVideoWithModel_start_def js_or_def
      handlePredictionFromVideo_def initial_state_def Let_def)

section \<open>Changing the model\<close>








end
